theory Spec2Isabelle
  imports Complex_Main
begin

section \<open>Data model of the VQE dashboard (src/src/App.tsx)\<close>

text \<open>
  The dashboard keeps five React state holders (\<open>config\<close>, \<open>isRunning\<close>, \<open>progress\<close>,
  \<open>results\<close>, \<open>dissociationData\<close>) and two asynchronous generators, \<open>runVQE\<close> and
  \<open>generateDissociationCurve\<close>, that write to them through the state setters.

  Conventions of the embedding:
  \<^item> a TypeScript \<open>number\<close> is a \<open>real\<close>, and the expressions of the generators are
    read twice. In the exact reading arithmetic is that of the reals, \<open>Math.exp\<close> is
    \<open>exp\<close>, \<open>Math.abs\<close> is \<open>abs\<close> and \<open>Math.pow(x, 2)\<close> is \<open>x\<^sup>2\<close>; it serves the
    properties that name the code's own expressions. In the binary64 reading (section
    on IEEE-754 arithmetic) every literal and every operation is rounded to the nearest
    double; it serves the properties that rounding decides. \<open>NaN\<close> and the infinities
    are outside both. A loop counter is a \<open>nat\<close> and enters arithmetic through \<open>real\<close>;
  \<^item> \<open>Math.random()\<close> is a parameter \<open>rnd\<close>: \<open>rnd i\<close> is the value drawn in
    iteration \<open>i\<close>; the language guarantees \<open>0 \<le> rnd i < 1\<close>, which theorems assume
    where they need it;
  \<^item> a call of a state setter is an \<open>action\<close>; a generator is the list of the actions
    it performs, in order. The timer waits between iterations (\<open>await\<close> of a
    \<open>setTimeout\<close>) only pace the run and are not modelled;
  \<^item> the union type \<open>'H2' | 'LiH'\<close> is a datatype, other strings are \<open>string\<close>.
\<close>

datatype Molecule = H2 | LiH

record MoleculeConfig =
  molecule :: Molecule
  bondLength :: real
  basis :: string
  ansatz :: string
  optimizer :: string
  backend :: string
  shots :: real
  maxIterations :: real

record ConvergencePoint =
  iteration :: real
  energy :: real

record Diagnostics =
  qubits :: real
  pauliTerms :: real
  circuitDepth :: real
  evaluations :: real
  totalShots :: real
  error :: real

record VQEResult =
  energy :: real
  convergence :: "ConvergencePoint list"
  diagnostics :: Diagnostics

record DissociationPoint =
  r :: real
  energy :: real

record AppState =
  config :: MoleculeConfig
  isRunning :: bool
  progress :: real
  results :: "VQEResult option"
  dissociationData :: "DissociationPoint list"

text \<open>The initial values of the state holders (the arguments of \<open>useState\<close>).\<close>

definition initialConfig :: MoleculeConfig where
  "initialConfig =
     \<lparr>molecule = H2, bondLength = 0.74, basis = ''STO-3G'', ansatz = ''UCCSD'',
      optimizer = ''COBYLA'', backend = ''statevector'', shots = 4000,
      maxIterations = 200\<rparr>"

definition initialState :: AppState where
  "initialState =
     \<lparr>config = initialConfig, isRunning = False, progress = 0, results = None,
      dissociationData = []\<rparr>"

subsection \<open>State setters\<close>

datatype action =
    SetIsRunning bool
  | SetProgress real
  | SetResults VQEResult
  | SetDissociationData "DissociationPoint list"

fun apply_action :: "action \<Rightarrow> AppState \<Rightarrow> AppState" where
  "apply_action (SetIsRunning b) s = s\<lparr>isRunning := b\<rparr>"
| "apply_action (SetProgress p) s = s\<lparr>progress := p\<rparr>"
| "apply_action (SetResults res) s = s\<lparr>results := Some res\<rparr>"
| "apply_action (SetDissociationData d) s = s\<lparr>dissociationData := d\<rparr>"

text \<open>
  \<open>states s acts\<close> lists the successive contents of the state holders while the actions
  \<open>acts\<close> are performed from \<open>s\<close>: the state before the first action, then the state
  after each action.
\<close>

fun states :: "AppState \<Rightarrow> action list \<Rightarrow> AppState list" where
  "states s [] = [s]"
| "states s (a # acts) = s # states (apply_action a s) acts"

text \<open>The snapshots and the dissociation curves that a list of actions publishes.\<close>

fun published_results :: "action list \<Rightarrow> VQEResult list" where
  "published_results [] = []"
| "published_results (SetResults res # acts) = res # published_results acts"
| "published_results (_ # acts) = published_results acts"

fun published_curves :: "action list \<Rightarrow> DissociationPoint list list" where
  "published_curves [] = []"
| "published_curves (SetDissociationData d # acts) = d # published_curves acts"
| "published_curves (_ # acts) = published_curves acts"

text \<open>
  The convergence sequence that a state shows: the plot of \<open>App\<close> is given
  \<open>results?.convergence || []\<close>, the empty sequence while no result is stored.
\<close>

definition published_convergence :: "AppState \<Rightarrow> ConvergencePoint list" where
  "published_convergence s = (case AppState.results s of None \<Rightarrow> [] | Some res \<Rightarrow> convergence res)"

definition published_length :: "AppState \<Rightarrow> nat" where
  "published_length s = length (published_convergence s)"

section \<open>Convergence simulator: \<open>runVQE\<close>\<close>

definition totalIterations :: nat where
  "totalIterations = 50"

definition baseEnergy :: "MoleculeConfig \<Rightarrow> real" where
  "baseEnergy cfg = (if molecule cfg = H2 then - 1.13727 else - 7.8773)"

text \<open>\<open>noise i u\<close> is the noise of iteration \<open>i\<close> when \<open>Math.random()\<close> returns \<open>u\<close>.\<close>

definition noise :: "nat \<Rightarrow> real \<Rightarrow> real" where
  "noise i u = exp (- real i * 0.1) * 0.01 * (u - 0.5)"

definition vqe_energy :: "MoleculeConfig \<Rightarrow> nat \<Rightarrow> real \<Rightarrow> real" where
  "vqe_energy cfg i u = baseEnergy cfg + noise i u"

text \<open>The deviation from the reference in milli-Hartree, as stored in \<open>diagnostics.error\<close>.\<close>

definition vqe_error :: "MoleculeConfig \<Rightarrow> real \<Rightarrow> real" where
  "vqe_error cfg e = \<bar>e - baseEnergy cfg\<bar> * 1000"

text \<open>
  The object passed to \<open>setResults\<close> in iteration \<open>i\<close>, for the energy \<open>e\<close> of the
  iteration and the accumulated points \<open>cd\<close> (the spread \<open>[...convergenceData]\<close> copies
  the array; lists are values, so the copy is the list itself).
\<close>

definition snapshot ::
  "MoleculeConfig \<Rightarrow> nat \<Rightarrow> real \<Rightarrow> ConvergencePoint list \<Rightarrow> VQEResult" where
  "snapshot cfg i e cd =
     \<lparr>VQEResult.energy = e,
      convergence = cd,
      diagnostics =
        \<lparr>qubits = (if molecule cfg = H2 then 2 else 8),
         pauliTerms = (if molecule cfg = H2 then 5 else 24),
         circuitDepth = (if ansatz cfg = ''UCCSD'' then 12 else 6),
         evaluations = real i + 1,
         totalShots = (if backend cfg = ''statevector'' then 0 else shots cfg * (real i + 1)),
         error = vqe_error cfg e\<rparr>\<rparr>"

text \<open>
  One pass through the body of the \<open>for\<close> loop, at counter \<open>i\<close> and with the local
  array \<open>convergenceData\<close> holding \<open>cd\<close>: the array after the \<open>push\<close>, and the
  setter calls of the pass.
\<close>

definition vqe_iteration ::
  "MoleculeConfig \<Rightarrow> (nat \<Rightarrow> real) \<Rightarrow> nat \<Rightarrow> ConvergencePoint list \<Rightarrow>
   ConvergencePoint list \<times> action list" where
  "vqe_iteration cfg rnd i cd =
     (let e = vqe_energy cfg i (rnd i);
          cd' = cd @ [\<lparr>iteration = real i, ConvergencePoint.energy = e\<rparr>]
      in (cd',
          SetProgress ((real i / real totalIterations) * 100) #
          (if i mod 5 = 0 then [SetResults (snapshot cfg i e cd')] else [])))"

text \<open>
  The loop \<open>for (let i = 0; i <= totalIterations; i++)\<close>, from counter \<open>i\<close> on: the
  list of its passes, each with the array it leaves and the setter calls it makes.
\<close>

function vqe_loop ::
  "MoleculeConfig \<Rightarrow> (nat \<Rightarrow> real) \<Rightarrow> nat \<Rightarrow> ConvergencePoint list \<Rightarrow>
   (ConvergencePoint list \<times> action list) list" where
  "vqe_loop cfg rnd i cd =
     (if i \<le> totalIterations
      then (let pass = vqe_iteration cfg rnd i cd
            in pass # vqe_loop cfg rnd (i + 1) (fst pass))
      else [])"
  by pat_completeness auto
termination
  by (relation "measure (\<lambda>(cfg, rnd, i, cd). Suc totalIterations - i)") auto

text \<open>The point that iteration \<open>i\<close> of a run pushes.\<close>

definition vqe_point :: "MoleculeConfig \<Rightarrow> (nat \<Rightarrow> real) \<Rightarrow> nat \<Rightarrow> ConvergencePoint" where
  "vqe_point cfg rnd i =
     \<lparr>iteration = real i, ConvergencePoint.energy = vqe_energy cfg i (rnd i)\<rparr>"

text \<open>The snapshot that iteration \<open>i\<close> of a run publishes when \<open>i mod 5 = 0\<close>.\<close>

definition vqe_snapshot :: "MoleculeConfig \<Rightarrow> (nat \<Rightarrow> real) \<Rightarrow> nat \<Rightarrow> VQEResult" where
  "vqe_snapshot cfg rnd i =
     snapshot cfg i (vqe_energy cfg i (rnd i)) (map (vqe_point cfg rnd) [0..<Suc i])"

text \<open>
  \<open>runVQE\<close> reads \<open>config\<close> from the render it was created in, starts with an empty
  local array, and performs: \<open>setIsRunning(true)\<close>, \<open>setProgress(0)\<close>, the loop,
  \<open>setIsRunning(false)\<close>.
\<close>

definition runVQE_passes ::
  "MoleculeConfig \<Rightarrow> (nat \<Rightarrow> real) \<Rightarrow> (ConvergencePoint list \<times> action list) list" where
  "runVQE_passes cfg rnd = vqe_loop cfg rnd 0 []"

definition runVQE :: "MoleculeConfig \<Rightarrow> (nat \<Rightarrow> real) \<Rightarrow> action list" where
  "runVQE cfg rnd =
     [SetIsRunning True, SetProgress 0] @
     concat (map snd (runVQE_passes cfg rnd)) @
     [SetIsRunning False]"

text \<open>
  The successive contents of the local array \<open>convergenceData\<close> during a run: empty
  at its declaration, then its content after each pass of the loop.
\<close>

definition runVQE_convergenceData ::
  "MoleculeConfig \<Rightarrow> (nat \<Rightarrow> real) \<Rightarrow> ConvergencePoint list list" where
  "runVQE_convergenceData cfg rnd = [] # map fst (runVQE_passes cfg rnd)"

section \<open>Dissociation curve generator: \<open>generateDissociationCurve\<close>\<close>

text \<open>\<open>Array.from({ length: 15 }, (_, i) => 0.4 + i * 0.15)\<close>\<close>

definition bondLengths :: "real list" where
  "bondLengths = map (\<lambda>i. 0.4 + real i * 0.15) [0..<15]"

text \<open>The Morse-shaped energy of the loop body, with its three local constants.\<close>

definition morse_energy :: "real \<Rightarrow> real" where
  "morse_energy x =
     (let D = 0.4556; a = 1.44; re = 0.74
      in - 1.13727 + D * (1 - exp (- a * (x - re)))\<^sup>2 - D)"

text \<open>
  One pass through the loop body at index \<open>i < length bl\<close>, with the local array
  \<open>curveData\<close> holding \<open>cd\<close>.
\<close>

definition diss_iteration ::
  "real list \<Rightarrow> nat \<Rightarrow> DissociationPoint list \<Rightarrow> DissociationPoint list \<times> action list" where
  "diss_iteration bl i cd =
     (let x = bl ! i;
          e = morse_energy x;
          cd' = cd @ [\<lparr>r = x, DissociationPoint.energy = e\<rparr>]
      in (cd', [SetProgress ((real i / real (length bl)) * 100)]))"

function diss_loop ::
  "real list \<Rightarrow> nat \<Rightarrow> DissociationPoint list \<Rightarrow>
   (DissociationPoint list \<times> action list) list" where
  "diss_loop bl i cd =
     (if i < length bl
      then (let pass = diss_iteration bl i cd
            in pass # diss_loop bl (i + 1) (fst pass))
      else [])"
  by pat_completeness auto
termination
  by (relation "measure (\<lambda>(bl, i, cd). length bl - i)") auto

text \<open>The point pushed for the bond length \<open>x\<close>.\<close>

definition diss_point :: "real \<Rightarrow> DissociationPoint" where
  "diss_point x = \<lparr>r = x, DissociationPoint.energy = morse_energy x\<rparr>"

text \<open>The content of a local array after a loop that started with \<open>init\<close>.\<close>

definition final_data :: "'a list \<Rightarrow> ('a list \<times> action list) list \<Rightarrow> 'a list" where
  "final_data init passes = (if passes = [] then init else fst (last passes))"

text \<open>
  \<open>generateDissociationCurve\<close> reads no state holder. It performs \<open>setIsRunning(true)\<close>,
  the loop, \<open>setDissociationData(curveData)\<close>, \<open>setIsRunning(false)\<close>.
\<close>

definition generateDissociationCurve :: "action list" where
  "generateDissociationCurve =
     (let passes = diss_loop bondLengths 0 []
      in [SetIsRunning True] @
         concat (map snd passes) @
         [SetDissociationData (final_data [] passes), SetIsRunning False])"

section \<open>Export: \<open>exportResults\<close>\<close>

text \<open>
  The record that \<open>exportResults\<close> serialises. What the function does to the outside
  is a list of effects: \<open>Serialize d\<close> is the call \<open>JSON.stringify(d, null, 2)\<close>
  whose text fills the blob, \<open>OfferDownload n\<close> is the click on an anchor whose
  \<open>download\<close> attribute is \<open>n\<close>. The conversion of a number to text inside the
  template literal is a parameter, \<open>show_number\<close>.
\<close>

record ExportData =
  configuration :: MoleculeConfig
  results :: VQEResult
  dissociation :: "DissociationPoint list"

datatype export_effect = Serialize ExportData | OfferDownload string

fun molecule_name :: "Molecule \<Rightarrow> string" where
  "molecule_name H2 = ''H2''"
| "molecule_name LiH = ''LiH''"

definition export_filename :: "(real \<Rightarrow> string) \<Rightarrow> MoleculeConfig \<Rightarrow> string" where
  "export_filename show_number cfg =
     ''vqe_results_'' @ molecule_name (molecule cfg) @ ''_'' @
     show_number (bondLength cfg) @ ''A.json''"

definition exportResults :: "(real \<Rightarrow> string) \<Rightarrow> AppState \<Rightarrow> export_effect list" where
  "exportResults show_number s =
     (case AppState.results s of
        None \<Rightarrow> []
      | Some res \<Rightarrow>
          [Serialize \<lparr>configuration = config s, results = res,
                      dissociation = dissociationData s\<rparr>,
           OfferDownload (export_filename show_number (config s))])"

section \<open>IEEE-754 binary64 arithmetic\<close>

text \<open>
  A finite double is a real \<open>m * 2^q\<close> with an integer \<open>m\<close>, \<open>\<bar>m\<bar> < 2^53\<close>, and
  \<open>q \<ge> -1074\<close>. \<open>fl x\<close> is the double nearest to the real \<open>x\<close>, ties going to the even
  significand: \<open>binade x\<close> is the exponent \<open>e\<close> with \<open>2^e \<le> \<bar>x\<bar> < 2^(e+1)\<close>, held at -1022
  for the subnormal numbers, and \<open>ulp x = 2^(e - 52)\<close> is the spacing of the doubles
  there. A numeric literal denotes \<open>fl\<close> of its decimal value, and \<open>a + b\<close>, \<open>a - b\<close>,
  \<open>a * b\<close>, \<open>a / b\<close> on doubles are \<open>fl\<close> of the exact result. Where IEEE-754 overflows to
  an infinity (a result of magnitude \<open>2^1024\<close> or more) \<open>fl\<close> says nothing about the
  program; every theorem bounds its arguments away from that.
\<close>

definition round_even :: "real \<Rightarrow> int" where
  "round_even z =
     (let n = \<lfloor>z\<rfloor>; d = z - of_int n
      in if d < 1 / 2 then n else if 1 / 2 < d then n + 1
         else if even n then n else n + 1)"

definition binade :: "real \<Rightarrow> int" where
  "binade x = max \<lfloor>log 2 \<bar>x\<bar>\<rfloor> (- 1022)"

definition ulp :: "real \<Rightarrow> real" where
  "ulp x = 2 powr (of_int (binade x) - 52)"

definition fl :: "real \<Rightarrow> real" where
  "fl x = (if x = 0 then 0 else of_int (round_even (x / ulp x)) * ulp x)"

definition fmul :: "real \<Rightarrow> real \<Rightarrow> real" where "fmul a b = fl (a * b)"
definition fdiv :: "real \<Rightarrow> real \<Rightarrow> real" where "fdiv a b = fl (a / b)"

subsection \<open>The energy and the error of an iteration in binary64\<close>






section \<open>Derived metrics shown by the views\<close>

text \<open>
  The Analysis tab of \<open>App\<close> and the convergence summary of \<open>ResultsTable\<close> both test
  \<open>results.diagnostics.error < 1.6\<close>; the first shows a check mark with "Achieved" or
  a cross with "Not reached", the second a check mark or a circle.
\<close>

datatype accuracy_mark = CheckMark | CrossMark | CircleMark

definition app_chemical_accuracy :: "real \<Rightarrow> accuracy_mark \<times> string" where
  "app_chemical_accuracy err =
     (if err < 1.6 then (CheckMark, ''Achieved'') else (CrossMark, ''Not reached''))"

definition table_chemical_accuracy :: "real \<Rightarrow> accuracy_mark" where
  "table_chemical_accuracy err = (if err < 1.6 then CheckMark else CircleMark)"

text \<open>
  \<open>ResultsTable\<close> shows each energy in electronvolts as \<open>energy * 27.2114\<close> (before the
  formatting by \<open>toFixed\<close>): the product of two doubles.
\<close>

definition energy_eV :: "real \<Rightarrow> real" where
  "energy_eV e = fmul e (fl 27.2114)"

section \<open>The formulas in the words of the specification\<close>

text \<open>
  The specification writes the energy of iteration \<open>i\<close> as
  \<open>reference + decay(i) * jitter\<close> with \<open>decay(i) = exp(-0.1 * i)\<close> and a jitter that is
  a symmetric random value scaled by 0.01.
\<close>

definition reference :: "Molecule \<Rightarrow> real" where
  "reference m = (if m = H2 then - 1.13727 else - 7.8773)"

definition decay :: "nat \<Rightarrow> real" where
  "decay i = exp (- 0.1 * real i)"

definition jitter :: "real \<Rightarrow> real" where
  "jitter u = 0.01 * (u - 0.5)"

text \<open>
  The specification's dissociation curve: 15 bond lengths from 0.40 in steps of 0.15,
  each with the Morse-shaped energy for \<open>D = 0.4556\<close>, \<open>a = 1.44\<close>, \<open>re = 0.74\<close>.
\<close>

definition spec_curve :: "DissociationPoint list" where
  "spec_curve =
     map (\<lambda>k. \<lparr>r = 0.40 + 0.15 * real k,
               DissociationPoint.energy =
                 - 1.13727 + 0.4556 * (1 - exp (- 1.44 * ((0.40 + 0.15 * real k) - 0.74)))\<^sup>2
                 - 0.4556\<rparr>)
       [0..<15]"

section \<open>Example states\<close>

text \<open>A state after a run for LiH at bond length 1.6 with a dissociation curve stored.\<close>

definition lithium_hydride_state :: AppState where
  "lithium_hydride_state =
     \<lparr>config = initialConfig\<lparr>molecule := LiH, bondLength := 1.6\<rparr>, isRunning = False,
      progress = 100,
      AppState.results = Some (vqe_snapshot (initialConfig\<lparr>molecule := LiH, bondLength := 1.6\<rparr>) (\<lambda>i. 0.5) 50),
      dissociationData = spec_curve\<rparr>"

section \<open>The loops, pass by pass\<close>

subsection \<open>The passes of \<open>runVQE\<close>\<close>

lemma fst_vqe_iteration: "fst (vqe_iteration cfg rnd i cd) = cd @ [vqe_point cfg rnd i]"
  by (simp add: vqe_iteration_def vqe_point_def Let_def)

lemma snd_vqe_iteration:
  "snd (vqe_iteration cfg rnd i cd) =
     SetProgress ((real i / real totalIterations) * 100) #
     (if i mod 5 = 0
      then [SetResults (snapshot cfg i (vqe_energy cfg i (rnd i)) (cd @ [vqe_point cfg rnd i]))]
      else [])"
  by (simp add: vqe_iteration_def vqe_point_def Let_def)

declare vqe_loop.simps [simp del]

lemma vqe_loop_passes:
  "vqe_loop cfg rnd i cd =
     map (\<lambda>j. vqe_iteration cfg rnd j (cd @ map (vqe_point cfg rnd) [i..<j]))
       [i..<Suc totalIterations]"
proof (induction cfg rnd i cd rule: vqe_loop.induct)
  case (1 cfg rnd i cd)
  show ?case
  proof (cases "i \<le> totalIterations")
    case True
    have "vqe_loop cfg rnd (i + 1) (cd @ [vqe_point cfg rnd i]) =
        map (\<lambda>j. vqe_iteration cfg rnd j
                 ((cd @ [vqe_point cfg rnd i]) @ map (vqe_point cfg rnd) [i + 1..<j]))
          [i + 1..<Suc totalIterations]"
      using "1.IH" [OF True refl] by (simp only: fst_vqe_iteration)
    also have "\<dots> =
        map (\<lambda>j. vqe_iteration cfg rnd j (cd @ map (vqe_point cfg rnd) [i..<j]))
          [i + 1..<Suc totalIterations]"
    proof (rule map_cong [OF refl])
      fix j assume "j \<in> set [i + 1..<Suc totalIterations]"
      then have "i < j" by auto
      then have "[i..<j] = i # [i + 1..<j]" by (simp add: upt_conv_Cons)
      then show "vqe_iteration cfg rnd j
                   ((cd @ [vqe_point cfg rnd i]) @ map (vqe_point cfg rnd) [i + 1..<j]) =
                 vqe_iteration cfg rnd j (cd @ map (vqe_point cfg rnd) [i..<j])"
        by simp
    qed
    finally have tail: "vqe_loop cfg rnd (i + 1) (cd @ [vqe_point cfg rnd i]) =
        map (\<lambda>j. vqe_iteration cfg rnd j (cd @ map (vqe_point cfg rnd) [i..<j]))
          [i + 1..<Suc totalIterations]" .
    have split: "[i..<Suc totalIterations] = i # [i + 1..<Suc totalIterations]"
      using True by (simp add: upt_conv_Cons)
    have "vqe_loop cfg rnd i cd =
        vqe_iteration cfg rnd i cd # vqe_loop cfg rnd (i + 1) (cd @ [vqe_point cfg rnd i])"
      using True by (subst vqe_loop.simps) (simp add: Let_def fst_vqe_iteration)
    then show ?thesis
      by (simp only: tail split list.map) simp
  next
    case False
    then show ?thesis by (subst vqe_loop.simps) simp
  qed
qed

lemma published_results_append:
  "published_results (xs @ ys) = published_results xs @ published_results ys"
  by (induction xs rule: published_results.induct) simp_all

lemma published_results_concat:
  "published_results (concat xss) = concat (map published_results xss)"
  by (induction xss) (simp_all add: published_results_append)

lemma published_curves_append:
  "published_curves (xs @ ys) = published_curves xs @ published_curves ys"
  by (induction xs rule: published_curves.induct) simp_all

lemma published_curves_concat:
  "published_curves (concat xss) = concat (map published_curves xss)"
  by (induction xss) (simp_all add: published_curves_append)

lemma concat_map_if:
  "concat (map (\<lambda>x. if P x then [f x] else []) xs) = map f (filter P xs)"
  by (induction xs) simp_all

lemma runVQE_passes_eq:
  "runVQE_passes cfg rnd =
     map (\<lambda>j. vqe_iteration cfg rnd j (map (vqe_point cfg rnd) [0..<j]))
       [0..<Suc totalIterations]"
  by (simp add: runVQE_passes_def vqe_loop_passes)

lemma published_results_pass:
  "published_results (snd (vqe_iteration cfg rnd j (map (vqe_point cfg rnd) [0..<j]))) =
     (if j mod 5 = 0 then [vqe_snapshot cfg rnd j] else [])"
  by (simp add: snd_vqe_iteration vqe_snapshot_def)

lemma published_results_runVQE:
  "published_results (runVQE cfg rnd) =
     map (vqe_snapshot cfg rnd) (filter (\<lambda>j. j mod 5 = 0) [0..<Suc totalIterations])"
  by (simp add: runVQE_def published_results_append published_results_concat
      runVQE_passes_eq comp_def published_results_pass concat_map_if
      del: upt_Suc)

lemma snapshot_iterations:
  "filter (\<lambda>j. j mod 5 = 0) [0..<Suc totalIterations] = map (\<lambda>k. 5 * k) [0..<11]"
  unfolding totalIterations_def by code_simp

lemma vqe_points_Suc:
  "map (vqe_point cfg rnd) [0..<Suc j] = map (vqe_point cfg rnd) [0..<j] @ [vqe_point cfg rnd j]"
  by simp

lemma runVQE_convergenceData_eq:
  "runVQE_convergenceData cfg rnd =
     map (\<lambda>k. map (vqe_point cfg rnd) [0..<k]) [0..<Suc (Suc totalIterations)]"
proof -
  have "map fst (runVQE_passes cfg rnd) =
      map (\<lambda>j. map (vqe_point cfg rnd) [0..<Suc j]) [0..<Suc totalIterations]"
    by (simp add: runVQE_passes_eq fst_vqe_iteration comp_def vqe_points_Suc del: upt_Suc)
  also have "\<dots> = map (\<lambda>k. map (vqe_point cfg rnd) [0..<k]) (map Suc [0..<Suc totalIterations])"
    by (simp add: comp_def del: upt_Suc)
  also have "map Suc [0..<Suc totalIterations] = [Suc 0..<Suc (Suc totalIterations)]"
    by (rule map_Suc_upt)
  finally have "map fst (runVQE_passes cfg rnd) =
      map (\<lambda>k. map (vqe_point cfg rnd) [0..<k]) [Suc 0..<Suc (Suc totalIterations)]" .
  moreover have "[0..<Suc (Suc totalIterations)] = 0 # [Suc 0..<Suc (Suc totalIterations)]"
    by (simp add: upt_conv_Cons)
  ultimately show ?thesis
    by (simp only: runVQE_convergenceData_def list.map) simp
qed

lemma last_runVQE_convergenceData:
  "last (runVQE_convergenceData cfg rnd) = map (vqe_point cfg rnd) [0..<Suc totalIterations]"
proof -
  have "last (map (\<lambda>k. map (vqe_point cfg rnd) [0..<k]) [0..<Suc (Suc totalIterations)]) =
      map (vqe_point cfg rnd) [0..<Suc totalIterations]"
    by (subst last_map) (simp_all del: upt_Suc add: upt_Suc_append)
  then show ?thesis by (simp only: runVQE_convergenceData_eq)
qed

lemma runVQE_point:
  "i \<le> totalIterations \<Longrightarrow> last (runVQE_convergenceData cfg rnd) ! i = vqe_point cfg rnd i"
  by (simp only: last_runVQE_convergenceData) (simp del: upt_Suc)

lemma runVQE_snapshot:
  assumes "i \<le> totalIterations" and "i mod 5 = 0"
  shows "published_results (runVQE cfg rnd) ! (i div 5) = vqe_snapshot cfg rnd i"
proof -
  have lt: "i div 5 < 11" using assms(1) by (simp add: totalIterations_def)
  have "published_results (runVQE cfg rnd) = map (vqe_snapshot cfg rnd) (map (\<lambda>k. 5 * k) [0..<11])"
    by (simp only: published_results_runVQE snapshot_iterations)
  then have "published_results (runVQE cfg rnd) ! (i div 5) = vqe_snapshot cfg rnd (5 * (i div 5))"
    using lt by (simp del: upt_Suc)
  moreover have "5 * (i div 5) = i" using assms(2) by presburger
  ultimately show ?thesis by simp
qed

subsection \<open>The energy of an iteration\<close>

lemma vqe_energy_spec: "vqe_energy cfg i u = reference (molecule cfg) + decay i * jitter u"
  by (simp add: vqe_energy_def baseEnergy_def noise_def reference_def decay_def jitter_def)

lemma jitter_range: "0 \<le> u \<Longrightarrow> u < 1 \<Longrightarrow> - 0.005 \<le> jitter u \<and> jitter u < 0.005"
  by (simp add: jitter_def)

subsection \<open>Snapshots of a run\<close>

lemma length_runVQE_passes: "length (runVQE_passes cfg rnd) = Suc totalIterations"
  by (simp add: runVQE_passes_eq del: upt_Suc)

lemma pass_publications:
  "map (\<lambda>p. length (published_results (snd p))) (runVQE_passes cfg rnd) =
     map (\<lambda>i. if i mod 5 = 0 then 1 else 0) [0..<Suc totalIterations]"
  by (simp add: runVQE_passes_eq comp_def published_results_pass del: upt_Suc cong: if_cong)

lemma published_results_runVQE_list:
  "published_results (runVQE cfg rnd) = map (\<lambda>k. vqe_snapshot cfg rnd (5 * k)) [0..<11]"
  by (simp only: published_results_runVQE snapshot_iterations map_map comp_def)

lemma last_published_result:
  "last (published_results (runVQE cfg rnd)) = vqe_snapshot cfg rnd totalIterations"
proof -
  have "last (map (\<lambda>k. vqe_snapshot cfg rnd (5 * k)) [0..<11]) = vqe_snapshot cfg rnd (5 * 10)"
    by (subst last_map) simp_all
  then show ?thesis
    by (simp only: published_results_runVQE_list) (simp add: totalIterations_def)
qed

subsection \<open>The passes of \<open>generateDissociationCurve\<close>\<close>

declare diss_loop.simps [simp del]

lemma fst_diss_iteration: "fst (diss_iteration bl i cd) = cd @ [diss_point (bl ! i)]"
  by (simp add: diss_iteration_def diss_point_def Let_def)

lemma snd_diss_iteration:
  "snd (diss_iteration bl i cd) = [SetProgress ((real i / real (length bl)) * 100)]"
  by (simp add: diss_iteration_def Let_def)

lemma diss_loop_passes:
  "diss_loop bl i cd =
     map (\<lambda>j. diss_iteration bl j (cd @ map (\<lambda>k. diss_point (bl ! k)) [i..<j])) [i..<length bl]"
proof (induction bl i cd rule: diss_loop.induct)
  case (1 bl i cd)
  show ?case
  proof (cases "i < length bl")
    case True
    have "diss_loop bl (i + 1) (cd @ [diss_point (bl ! i)]) =
        map (\<lambda>j. diss_iteration bl j
                 ((cd @ [diss_point (bl ! i)]) @ map (\<lambda>k. diss_point (bl ! k)) [i + 1..<j]))
          [i + 1..<length bl]"
      using "1.IH" [OF True refl] by (simp only: fst_diss_iteration)
    also have "\<dots> =
        map (\<lambda>j. diss_iteration bl j (cd @ map (\<lambda>k. diss_point (bl ! k)) [i..<j]))
          [i + 1..<length bl]"
    proof (rule map_cong [OF refl])
      fix j assume "j \<in> set [i + 1..<length bl]"
      then have "i < j" by auto
      then have "[i..<j] = i # [i + 1..<j]" by (simp add: upt_conv_Cons)
      then show "diss_iteration bl j
                   ((cd @ [diss_point (bl ! i)]) @ map (\<lambda>k. diss_point (bl ! k)) [i + 1..<j]) =
                 diss_iteration bl j (cd @ map (\<lambda>k. diss_point (bl ! k)) [i..<j])"
        by simp
    qed
    finally have tail: "diss_loop bl (i + 1) (cd @ [diss_point (bl ! i)]) =
        map (\<lambda>j. diss_iteration bl j (cd @ map (\<lambda>k. diss_point (bl ! k)) [i..<j]))
          [i + 1..<length bl]" .
    have split: "[i..<length bl] = i # [i + 1..<length bl]"
      using True by (simp add: upt_conv_Cons)
    have "diss_loop bl i cd =
        diss_iteration bl i cd # diss_loop bl (i + 1) (cd @ [diss_point (bl ! i)])"
      using True by (subst diss_loop.simps) (simp add: Let_def fst_diss_iteration)
    then show ?thesis
      by (simp only: tail split list.map) simp
  next
    case False
    then show ?thesis by (subst diss_loop.simps) simp
  qed
qed

lemma diss_loop_actions:
  "concat (map snd (diss_loop bl 0 [])) =
     map (\<lambda>j. SetProgress ((real j / real (length bl)) * 100)) [0..<length bl]"
  by (simp add: diss_loop_passes comp_def snd_diss_iteration)

lemma diss_loop_final: "final_data [] (diss_loop bl 0 []) = map diss_point bl"
proof (cases "bl = []")
  case True
  then show ?thesis by (simp add: final_data_def diss_loop_passes)
next
  case False
  then obtain n where n: "length bl = Suc n" by (cases bl) auto
  have "fst (last (diss_loop bl 0 [])) = map (\<lambda>k. diss_point (bl ! k)) [0..<Suc n]"
    by (simp add: diss_loop_passes n fst_diss_iteration)
  also have "\<dots> = map diss_point (map (\<lambda>k. bl ! k) [0..<length bl])"
    by (simp only: n map_map comp_def)
  also have "\<dots> = map diss_point bl"
    by (simp only: map_nth)
  finally show ?thesis
    using False by (simp add: final_data_def diss_loop_passes)
qed

lemma curve_eq_spec: "map diss_point bondLengths = spec_curve"
  by (simp add: bondLengths_def spec_curve_def diss_point_def morse_energy_def comp_def
      algebra_simps del: upt_Suc)

lemma generateDissociationCurve_eq:
  "generateDissociationCurve =
     SetIsRunning True # map (\<lambda>j. SetProgress ((real j / 15) * 100)) [0..<15] @
     [SetDissociationData spec_curve, SetIsRunning False]"
proof -
  have "length bondLengths = 15" by (simp add: bondLengths_def)
  then show ?thesis
    by (simp only: generateDissociationCurve_def Let_def diss_loop_actions diss_loop_final
        curve_eq_spec) simp
qed

subsection \<open>What each generator leaves alone\<close>

lemma published_curves_runVQE: "published_curves (runVQE cfg rnd) = []"
  by (simp add: runVQE_def published_curves_append published_curves_concat runVQE_passes_eq
      comp_def snd_vqe_iteration del: upt_Suc)

lemma published_results_progress:
  "published_results (map (\<lambda>j. SetProgress (f j)) js) = []"
  by (induction js) simp_all

lemma published_curves_progress:
  "published_curves (map (\<lambda>j. SetProgress (f j)) js) = []"
  by (induction js) simp_all

lemma published_results_generateDissociationCurve:
  "published_results generateDissociationCurve = []"
  by (simp only: generateDissociationCurve_eq)
     (simp add: published_results_append published_results_progress del: upt_Suc)

lemma states_nonempty: "states s0 acts \<noteq> []"
  by (cases acts) simp_all

lemma states_keep_curve:
  "published_curves acts = [] \<Longrightarrow> s \<in> set (states s0 acts) \<Longrightarrow>
   dissociationData s = dissociationData s0 \<and> config s = config s0"
proof (induction acts arbitrary: s0)
  case Nil
  then show ?case by simp
next
  case (Cons a acts)
  show ?case
  proof (cases "s = s0")
    case True
    then show ?thesis by simp
  next
    case False
    with Cons.prems(2) have mem: "s \<in> set (states (apply_action a s0) acts)" by simp
    from Cons.prems(1) have "published_curves acts = [] \<and>
        dissociationData (apply_action a s0) = dissociationData s0 \<and>
        config (apply_action a s0) = config s0"
      by (cases a) simp_all
    with Cons.IH [OF _ mem] show ?thesis by simp
  qed
qed

lemma states_keep_results:
  "published_results acts = [] \<Longrightarrow> s \<in> set (states s0 acts) \<Longrightarrow>
   AppState.results s = AppState.results s0 \<and> config s = config s0"
proof (induction acts arbitrary: s0)
  case Nil
  then show ?case by simp
next
  case (Cons a acts)
  show ?case
  proof (cases "s = s0")
    case True
    then show ?thesis by simp
  next
    case False
    with Cons.prems(2) have mem: "s \<in> set (states (apply_action a s0) acts)" by simp
    from Cons.prems(1) have "published_results acts = [] \<and>
        AppState.results (apply_action a s0) = AppState.results s0 \<and>
        config (apply_action a s0) = config s0"
      by (cases a) simp_all
    with Cons.IH [OF _ mem] show ?thesis by simp
  qed
qed

subsection \<open>The stored result when a run starts\<close>

text \<open>
  \<open>runVQE\<close> never clears the \<open>results\<close> holder: through its first three setter calls the
  holder keeps what it held before the run (the last snapshot of an earlier run, if
  there was one), and the fourth call stores the snapshot of iteration 0.
\<close>

lemma runVQE_start:
  "\<exists>rest. runVQE cfg rnd =
     SetIsRunning True # SetProgress 0 # SetProgress 0 # SetResults (vqe_snapshot cfg rnd 0) # rest"
proof -
  have "[0..<Suc totalIterations] = 0 # [Suc 0..<Suc totalIterations]"
    by (simp add: upt_conv_Cons)
  then have "runVQE_passes cfg rnd =
      vqe_iteration cfg rnd 0 [] #
      map (\<lambda>j. vqe_iteration cfg rnd j (map (vqe_point cfg rnd) [0..<j]))
        [Suc 0..<Suc totalIterations]"
    by (simp only: runVQE_passes_eq list.map) simp
  then show ?thesis
    by (simp add: runVQE_def snd_vqe_iteration vqe_snapshot_def)
qed

lemma previous_result_until_first_snapshot:
  "take 5 (map AppState.results (states s0 (runVQE cfg rnd))) =
     [AppState.results s0, AppState.results s0, AppState.results s0, AppState.results s0,
      Some (vqe_snapshot cfg rnd 0)]"
proof -
  obtain rest where "runVQE cfg rnd =
      SetIsRunning True # SetProgress 0 # SetProgress 0 # SetResults (vqe_snapshot cfg rnd 0) # rest"
    using runVQE_start by blast
  then show ?thesis
    by (cases rest) simp_all
qed

subsection \<open>The published sequence along the states of a run\<close>

lemma states_Cons: "\<exists>rest. states s acts = s # rest"
  by (cases acts) simp_all

lemma published_length_apply:
  "published_length (apply_action a s) =
     (case a of SetResults res \<Rightarrow> length (convergence res) | _ \<Rightarrow> published_length s)"
  by (cases a) (simp_all add: published_length_def published_convergence_def)

lemma published_length_sorted:
  "sorted (published_length s # map (\<lambda>res. length (convergence res)) (published_results acts)) \<Longrightarrow>
   sorted (map published_length (states s acts))"
proof (induction acts arbitrary: s)
  case Nil
  then show ?case by simp
next
  case (Cons a acts)
  obtain rest where rest: "states (apply_action a s) acts = apply_action a s # rest"
    using states_Cons by blast
  have step: "published_length s \<le> published_length (apply_action a s) \<and>
      sorted (published_length (apply_action a s) #
              map (\<lambda>res. length (convergence res)) (published_results acts))"
    using Cons.prems
    by (cases a) (auto simp: published_length_def published_convergence_def)
  then have "sorted (map published_length (states (apply_action a s) acts))"
    using Cons.IH by blast
  then show ?case
    using step by (auto simp: rest intro: order_trans)
qed

lemma last_states_results:
  "AppState.results (last (states s acts)) =
     (if published_results acts = [] then AppState.results s
      else Some (last (published_results acts)))"
proof (induction acts arbitrary: s)
  case Nil
  then show ?case by simp
next
  case (Cons a acts)
  have ne: "states (apply_action a s) acts \<noteq> []" by (rule states_nonempty)
  show ?case
    using Cons.IH [of "apply_action a s"] ne by (cases a) simp_all
qed

lemma final_results_runVQE:
  "AppState.results (last (states s (runVQE cfg rnd))) = Some (vqe_snapshot cfg rnd totalIterations)"
proof -
  have "published_results (runVQE cfg rnd) \<noteq> []"
    by (simp only: published_results_runVQE_list) simp
  then show ?thesis
    by (simp only: last_states_results last_published_result if_False)
qed

lemma length_vqe_snapshot: "length (convergence (vqe_snapshot cfg rnd i)) = Suc i"
  by (simp add: vqe_snapshot_def snapshot_def)

lemma runVQE_states_start:
  "\<exists>tl_acts.
     runVQE cfg rnd =
       SetIsRunning True # SetProgress 0 # SetProgress 0 #
       SetResults (vqe_snapshot cfg rnd 0) # tl_acts \<and>
     states s0 (runVQE cfg rnd) =
       s0 # s0\<lparr>isRunning := True\<rparr> # s0\<lparr>isRunning := True, progress := 0\<rparr> #
       s0\<lparr>isRunning := True, progress := 0\<rparr> #
       states (s0\<lparr>isRunning := True, progress := 0,
                  AppState.results := Some (vqe_snapshot cfg rnd 0)\<rparr>) tl_acts"
proof -
  obtain tl_acts where eq: "runVQE cfg rnd =
      SetIsRunning True # SetProgress 0 # SetProgress 0 #
      SetResults (vqe_snapshot cfg rnd 0) # tl_acts"
    using runVQE_start by blast
  then show ?thesis by simp
qed

lemma published_lengths_runVQE:
  "map (\<lambda>res. length (convergence res)) (published_results (runVQE cfg rnd)) =
     map (\<lambda>k. 5 * k + 1) [0..<11]"
  by (simp only: published_results_runVQE_list map_map comp_def)
     (simp add: vqe_snapshot_def snapshot_def del: upt_Suc)

lemma sorted_published_lengths_runVQE:
  "sorted (map (\<lambda>res. length (convergence res)) (published_results (runVQE cfg rnd)))"
proof -
  have "sorted (map (\<lambda>k. 5 * k + 1) [0..<(11::nat)])" by code_simp
  then show ?thesis by (simp only: published_lengths_runVQE)
qed

lemma runVQE_holder:
  "take 4 (map published_convergence (states s0 (runVQE cfg rnd))) =
     replicate 4 (published_convergence s0) \<and>
   published_convergence (states s0 (runVQE cfg rnd) ! 4) = [vqe_point cfg rnd 0] \<and>
   sorted (map published_length (drop 4 (states s0 (runVQE cfg rnd))))"
proof -
  let ?s4 = "s0\<lparr>isRunning := True, progress := 0,
                AppState.results := Some (vqe_snapshot cfg rnd 0)\<rparr>"
  obtain tl_acts where acts: "runVQE cfg rnd =
      SetIsRunning True # SetProgress 0 # SetProgress 0 #
      SetResults (vqe_snapshot cfg rnd 0) # tl_acts"
    and sts: "states s0 (runVQE cfg rnd) =
      s0 # s0\<lparr>isRunning := True\<rparr> # s0\<lparr>isRunning := True, progress := 0\<rparr> #
      s0\<lparr>isRunning := True, progress := 0\<rparr> # states ?s4 tl_acts"
    using runVQE_states_start by blast
  obtain rest where rest: "states ?s4 tl_acts = ?s4 # rest"
    using states_Cons by blast
  have "sorted (map (\<lambda>res. length (convergence res))
          (published_results (SetIsRunning True # SetProgress 0 # SetProgress 0 #
             SetResults (vqe_snapshot cfg rnd 0) # tl_acts)))"
    using sorted_published_lengths_runVQE [of cfg rnd] by (simp only: acts)
  then have "sorted (published_length ?s4 #
      map (\<lambda>res. length (convergence res)) (published_results tl_acts))"
    by (simp add: published_length_def published_convergence_def)
  then have "sorted (map published_length (states ?s4 tl_acts))"
    by (rule published_length_sorted)
  moreover have "published_convergence ?s4 = [vqe_point cfg rnd 0]"
    by (simp add: published_convergence_def vqe_snapshot_def snapshot_def)
  ultimately show ?thesis
    unfolding sts rest by (simp add: published_convergence_def numeral_eq_Suc)
qed

section \<open>Rounding to binary64\<close>

subsection \<open>The error of one rounding\<close>

lemma round_even_error: "\<bar>of_int (round_even z) - z\<bar> \<le> 1 / 2"
  unfolding round_even_def Let_def by (auto simp: abs_if) linarith+

lemma round_even_eqI:
  assumes "\<bar>z - of_int m\<bar> < 1 / 2"
  shows "round_even z = m"
proof -
  have "\<bar>of_int (round_even z) - z\<bar> \<le> 1 / 2" by (rule round_even_error)
  with assms have "\<bar>(of_int (round_even z) :: real) - of_int m\<bar> < 1" by linarith
  then have "\<bar>of_int (round_even z - m) :: real\<bar> < 1" by simp
  then have "\<bar>round_even z - m\<bar> < 1" by (metis of_int_abs of_int_less_1_iff)
  then show ?thesis by linarith
qed

lemma ulp_pos: "0 < ulp x"
  by (simp add: ulp_def)

lemma binade_eqI:
  assumes "2 powr of_int k \<le> \<bar>x\<bar>" and "\<bar>x\<bar> < 2 powr (of_int k + 1)" and "- 1022 \<le> k"
  shows "binade x = k"
proof -
  have pos: "0 < \<bar>x\<bar>" using assms(1) powr_gt_zero [of 2 "of_int k"] by linarith
  have "of_int k \<le> log 2 \<bar>x\<bar>"
    using assms(1) pos by (simp add: le_log_iff)
  moreover have "log 2 \<bar>x\<bar> < of_int k + 1"
    using assms(2) pos by (simp add: log_less_iff)
  ultimately have "\<lfloor>log 2 \<bar>x\<bar>\<rfloor> = k" by linarith
  then show ?thesis using assms(3) by (simp add: binade_def)
qed

lemma fl_eqI:
  assumes "2 powr of_int k \<le> \<bar>x\<bar>" and "\<bar>x\<bar> < 2 powr (of_int k + 1)" and "- 1022 \<le> k"
    and "\<bar>x / 2 powr (of_int k - 52) - of_int m\<bar> < 1 / 2"
  shows "fl x = of_int m * 2 powr (of_int k - 52)"
proof -
  have b: "binade x = k" using assms(1-3) by (rule binade_eqI)
  have "x \<noteq> 0" using assms(1) powr_gt_zero [of 2 "of_int k"] by auto
  moreover have "round_even (x / 2 powr (of_int k - 52)) = m"
    using assms(4) by (rule round_even_eqI)
  ultimately show ?thesis by (simp add: fl_def ulp_def b)
qed

lemma fl_error_normal:
  assumes "2 powr (- 1022) \<le> \<bar>x\<bar>"
  shows "\<bar>fl x - x\<bar> \<le> 2 powr (- 53) * \<bar>x\<bar>"
proof -
  have pos: "0 < \<bar>x\<bar>" using assms powr_gt_zero [of 2 "- 1022"] by linarith
  then have nz: "x \<noteq> 0" by simp
  define e where "e = \<lfloor>log 2 \<bar>x\<bar>\<rfloor>"
  have "- 1022 \<le> log 2 \<bar>x\<bar>"
    using assms pos by (simp add: le_log_iff)
  then have "- 1022 \<le> e" unfolding e_def by linarith
  then have b: "binade x = e" by (simp add: binade_def e_def)
  have "of_int e \<le> log 2 \<bar>x\<bar>" unfolding e_def by simp
  then have low: "2 powr of_int e \<le> \<bar>x\<bar>"
    using pos by (simp add: le_log_iff)
  have u: "ulp x = 2 powr (of_int e - 52)" by (simp add: ulp_def b)
  have upos: "0 < ulp x" by (rule ulp_pos)
  have "fl x - x = (of_int (round_even (x / ulp x)) - x / ulp x) * ulp x"
    using nz upos by (simp add: fl_def field_simps)
  then have "\<bar>fl x - x\<bar> = \<bar>of_int (round_even (x / ulp x)) - x / ulp x\<bar> * ulp x"
    using upos by (simp add: abs_mult)
  also have "\<dots> \<le> (1 / 2) * ulp x"
    using round_even_error [of "x / ulp x"] upos by (intro mult_right_mono) simp_all
  also have "(1 / 2) * ulp x = 2 powr (- 53) * 2 powr of_int e"
    by (simp add: u powr_diff powr_minus field_simps)
  also have "\<dots> \<le> 2 powr (- 53) * \<bar>x\<bar>"
    using low by (intro mult_left_mono) simp_all
  finally show ?thesis .
qed



lemma eps_facts:
  "(2::real) powr (- 53) = 1 / 2 ^ 53" "(2::real) powr (- 51) = 1 / 2 ^ 51"
  "(2::real) powr (- 1075) = 1 / 2 ^ 1075"
  by (simp_all add: powr_minus field_simps)

lemma abs_diff_triangle:
  fixes a b c :: real
  shows "\<bar>a - b\<bar> \<le> A \<Longrightarrow> \<bar>b - c\<bar> \<le> B \<Longrightarrow> \<bar>a - c\<bar> \<le> A + B"
  by linarith

subsection \<open>Ties and subnormal numbers\<close>

text \<open>
  A value halfway between two doubles goes to the one with the even significand, and
  below \<open>2^-1022\<close> the doubles are \<open>2^-1074\<close> apart.
\<close>

lemma round_even_tie:
  "round_even (of_int n + 1 / 2) = (if even n then n else n + 1)"
proof -
  have "\<lfloor>(of_int n :: real) + 1 / 2\<rfloor> = n" by linarith
  then show ?thesis by (simp add: round_even_def Let_def)
qed

lemma binade_subnormal:
  assumes "x \<noteq> 0" and "\<bar>x\<bar> < 2 powr (- 1022)"
  shows "binade x = - 1022"
proof -
  have "log 2 \<bar>x\<bar> < - 1022"
    using assms by (simp add: log_less_iff)
  then have "\<lfloor>log 2 \<bar>x\<bar>\<rfloor> \<le> - 1022" by linarith
  then show ?thesis by (simp add: binade_def)
qed

lemma fl_tieI:
  assumes "2 powr of_int k \<le> \<bar>x\<bar>" and "\<bar>x\<bar> < 2 powr (of_int k + 1)" and "- 1022 \<le> k"
    and "x / 2 powr (of_int k - 52) = of_int n + 1 / 2"
  shows "fl x = of_int (if even n then n else n + 1) * 2 powr (of_int k - 52)"
proof -
  have b: "binade x = k" using assms(1-3) by (rule binade_eqI)
  have "x \<noteq> 0" using assms(1) powr_gt_zero [of 2 "of_int k"] by auto
  moreover have "round_even (x / 2 powr (of_int k - 52)) = (if even n then n else n + 1)"
    by (simp only: assms(4) round_even_tie)
  ultimately show ?thesis by (simp add: fl_def ulp_def b)
qed

lemma fl_subnormal_eqI:
  assumes "x \<noteq> 0" and "\<bar>x\<bar> < 2 powr (- 1022)"
    and "\<bar>x / 2 powr (- 1074) - of_int m\<bar> < 1 / 2"
  shows "fl x = of_int m * 2 powr (- 1074)"
proof -
  have b: "binade x = - 1022" using assms(1,2) by (rule binade_subnormal)
  have "round_even (x / 2 powr (- 1074)) = m"
    using assms(3) by (rule round_even_eqI)
  then show ?thesis using assms(1) by (simp add: fl_def ulp_def b)
qed

lemma fl_tie_to_even_down: "fl (1 + 1 / 2 ^ 53) = 1"
  using fl_tieI [of 0 "1 + 1 / 2 ^ 53" "2 ^ 52"] by (simp add: powr_minus field_simps)

lemma fl_tie_to_even_up: "fl (1 + 3 / 2 ^ 53) = 1 + 1 / 2 ^ 51"
  using fl_tieI [of 0 "1 + 3 / 2 ^ 53" "2 ^ 52 + 1"] by (simp add: powr_minus field_simps)

lemma fl_subnormal: "fl (5 / 2 ^ 1076) = 1 / 2 ^ 1074"
  using fl_subnormal_eqI [of "5 / 2 ^ 1076" 1] by (simp add: powr_minus field_simps)

subsection \<open>The conversion of -7.8798 Hartree and back\<close>

text \<open>
  -7.8798 is the energy of iteration 0 for LiH when \<open>Math.random()\<close> returns 0.25. Each
  rounding is settled by giving the binade and the significand.
\<close>

lemma fl_27_2114: "fl 27.2114 = 7659328181264345 / 2 ^ 48"
  using fl_eqI [of 4 "27.2114" 7659328181264345] by (simp add: powr_minus field_simps)

lemma fl_m7_8798: "fl (- 7.8798) = - (8871866085938509 / 2 ^ 50)"
  using fl_eqI [of 2 "- 7.8798" "- 8871866085938509"] by (simp add: powr_minus field_simps)

lemma eV_m7_8798: "energy_eV (fl (- 7.8798)) = - (7544246775340849 / 2 ^ 45)"
proof -
  have "energy_eV (fl (- 7.8798)) =
      fl (- (8871866085938509 / 2 ^ 50) * (7659328181264345 / 2 ^ 48))"
    by (simp only: energy_eV_def fmul_def fl_27_2114 fl_m7_8798)
  also have "\<dots> = - (7544246775340849 / 2 ^ 45)"
    using fl_eqI [of 7 "- (8871866085938509 / 2 ^ 50) * (7659328181264345 / 2 ^ 48)"
        "- 7544246775340849"]
    by (simp add: powr_minus field_simps)
  finally show ?thesis .
qed

lemma round_trip_m7_8798:
  "fdiv (energy_eV (fl (- 7.8798))) (fl 27.2114) = - (8871866085938510 / 2 ^ 50)"
proof -
  have "fdiv (energy_eV (fl (- 7.8798))) (fl 27.2114) =
      fl (- (7544246775340849 / 2 ^ 45) / (7659328181264345 / 2 ^ 48))"
    by (simp only: fdiv_def eV_m7_8798 fl_27_2114)
  also have "\<dots> = - (8871866085938510 / 2 ^ 50)"
    using fl_eqI [of 2 "- (7544246775340849 / 2 ^ 45) / (7659328181264345 / 2 ^ 48)"
        "- 8871866085938510"]
    by (simp add: powr_minus field_simps)
  finally show ?thesis .
qed

subsection \<open>Iteration 5 for H2 when the random draw is 0\<close>















subsection \<open>Accumulated rounding error\<close>





section \<open>The claims of the specification\<close>

text \<open>
  Claim C1, as stated, fails for the published sequence: \<open>runVQE\<close> never clears the
  \<open>results\<close> holder. In a second run, started from the state the first run leaves, the
  published sequence has length 51 before the run and through its first three setter
  calls, and length 1 after the fourth: it is not empty at the start and its length is
  not non-decreasing within the run.
\<close>

theorem second_run_not_reset:
  "map published_length
     (take 5 (states (last (states initialState (runVQE initialConfig (\<lambda>i. 0.5))))
                (runVQE initialConfig (\<lambda>i. 0.5)))) = [51, 51, 51, 51, 1] \<and>
   \<not> sorted (map published_length
     (states (last (states initialState (runVQE initialConfig (\<lambda>i. 0.5))))
        (runVQE initialConfig (\<lambda>i. 0.5)))) \<and>
   published_convergence (last (states initialState (runVQE initialConfig (\<lambda>i. 0.5)))) \<noteq> []"
proof -
  let ?run = "runVQE initialConfig (\<lambda>i. 0.5)"
  let ?s1 = "last (states initialState ?run)"
  have pl1: "published_length ?s1 = 51"
    by (simp add: published_length_def published_convergence_def final_results_runVQE
        length_vqe_snapshot totalIterations_def)
  obtain tl_acts where sts: "states ?s1 ?run =
      ?s1 # ?s1\<lparr>isRunning := True\<rparr> # ?s1\<lparr>isRunning := True, progress := 0\<rparr> #
      ?s1\<lparr>isRunning := True, progress := 0\<rparr> #
      states (?s1\<lparr>isRunning := True, progress := 0,
                AppState.results := Some (vqe_snapshot initialConfig (\<lambda>i. 0.5) 0)\<rparr>) tl_acts"
    using runVQE_states_start [of initialConfig "\<lambda>i. 0.5" ?s1] by blast
  obtain rest where rest: "states (?s1\<lparr>isRunning := True, progress := 0,
                AppState.results := Some (vqe_snapshot initialConfig (\<lambda>i. 0.5) 0)\<rparr>) tl_acts =
      ?s1\<lparr>isRunning := True, progress := 0,
                AppState.results := Some (vqe_snapshot initialConfig (\<lambda>i. 0.5) 0)\<rparr> # rest"
    using states_Cons by blast
  have pls: "published_length (?s1\<lparr>isRunning := True\<rparr>) = 51"
    "published_length (?s1\<lparr>isRunning := True, progress := 0\<rparr>) = 51"
    "published_length (?s1\<lparr>isRunning := True, progress := 0,
        AppState.results := Some (vqe_snapshot initialConfig (\<lambda>i. 0.5) 0)\<rparr>) = 1"
    using pl1 by (simp_all add: published_length_def published_convergence_def length_vqe_snapshot)
  have five: "map published_length (take 5 (states ?s1 ?run)) = [51, 51, 51, 51, 1]"
    unfolding sts rest using pl1 pls by simp
  have "\<not> sorted (map published_length (states ?s1 ?run))"
    unfolding sts rest using pl1 pls by simp
  moreover have "published_convergence ?s1 \<noteq> []"
    using pl1 by (auto simp: published_length_def)
  ultimately show ?thesis using five by blast
qed

text \<open>
  Claim C1, amended. In every run the local convergence sequence is empty before the
  first pass and grows by one point per pass (lengths 0, 1, ..., 51), and the snapshots
  of the run publish sequences of the lengths 1, 6, ..., 51. The \<open>results\<close> holder is not
  cleared when a run starts: through the first three setter calls the published sequence
  is that of the start state; the fourth call publishes the point of iteration 0 alone,
  and from then on the published length is non-decreasing, up to 51 at the end. In a run
  started with no stored result the published sequence is empty at the start and its
  length is non-decreasing throughout.
\<close>

theorem convergence_published_by_run:
  "hd (runVQE_convergenceData cfg rnd) = [] \<and>
   map length (runVQE_convergenceData cfg rnd) = [0..<52] \<and>
   map (\<lambda>res. length (convergence res)) (published_results (runVQE cfg rnd)) =
     map (\<lambda>k. 5 * k + 1) [0..<11] \<and>
   take 4 (map published_convergence (states s0 (runVQE cfg rnd))) =
     replicate 4 (published_convergence s0) \<and>
   map iteration (published_convergence (states s0 (runVQE cfg rnd) ! 4)) = [0] \<and>
   sorted (map published_length (drop 4 (states s0 (runVQE cfg rnd)))) \<and>
   published_length (last (states s0 (runVQE cfg rnd))) = 51 \<and>
   (AppState.results s0 = None \<longrightarrow>
      published_convergence s0 = [] \<and>
      sorted (map published_length (states s0 (runVQE cfg rnd))))"
proof -
  have hd0: "hd (runVQE_convergenceData cfg rnd) = []"
    by (simp add: runVQE_convergenceData_def)
  have lens: "map length (runVQE_convergenceData cfg rnd) = [0..<52]"
    by (simp only: runVQE_convergenceData_eq map_map comp_def)
       (simp add: totalIterations_def del: upt_Suc)
  have final: "published_length (last (states s0 (runVQE cfg rnd))) = 51"
    by (simp add: published_length_def published_convergence_def final_results_runVQE
        length_vqe_snapshot totalIterations_def)
  have first_run: "published_convergence s0 = [] \<and>
      sorted (map published_length (states s0 (runVQE cfg rnd)))"
    if none: "AppState.results s0 = None"
  proof -
    have zero: "published_length s0 = 0"
      using none by (simp add: published_length_def published_convergence_def)
    have "sorted (published_length s0 #
        map (\<lambda>res. length (convergence res)) (published_results (runVQE cfg rnd)))"
      using sorted_published_lengths_runVQE [of cfg rnd] by (simp add: zero)
    then have "sorted (map published_length (states s0 (runVQE cfg rnd)))"
      by (rule published_length_sorted)
    then show ?thesis
      using none by (simp add: published_convergence_def)
  qed
  have fourth: "map iteration (published_convergence (states s0 (runVQE cfg rnd) ! 4)) = [0]"
    using runVQE_holder [of s0 cfg rnd] by (simp add: vqe_point_def)
  show ?thesis
    using hd0 lens published_lengths_runVQE [of cfg rnd] runVQE_holder [of s0 cfg rnd]
      fourth final first_run
    by blast
qed

theorem convergence_published_by_run_witness:
  "AppState.results initialState = None \<and>
   published_convergence initialState = [] \<and>
   sorted (map published_length (states initialState (runVQE initialConfig (\<lambda>i. 0.5)))) \<and>
   published_length (last (states initialState (runVQE initialConfig (\<lambda>i. 0.5)))) = 51"
  using convergence_published_by_run [of initialConfig "\<lambda>i. 0.5" initialState]
  by (simp add: initialState_def)

text \<open>
  Claim C2. For every iteration \<open>i\<close> in 0..50 the simulator pushes the point with
  iteration \<open>i\<close> and energy \<open>reference + decay i * jitter\<close>, where the reference is
  -1.13727 for H2 and -7.8773 otherwise, \<open>decay i = exp (-0.1 * i)\<close>, and the jitter is the
  random draw shifted by 0.5 and scaled by 0.01, which lies in \<open>[-0.005, 0.005)\<close>. When
  the jitter is 0 the energy is the reference and the error is 0, also in the snapshot
  that the iteration publishes.
\<close>

theorem energy_formula:
  assumes "i \<le> totalIterations"
  shows "last (runVQE_convergenceData cfg rnd) ! i =
           \<lparr>iteration = real i,
            ConvergencePoint.energy = reference (molecule cfg) + decay i * jitter (rnd i)\<rparr> \<and>
         reference (molecule cfg) = (if molecule cfg = H2 then - 1.13727 else - 7.8773) \<and>
         decay i = exp (- 0.1 * real i) \<and>
         jitter (rnd i) = 0.01 * (rnd i - 0.5) \<and>
         (0 \<le> rnd i \<and> rnd i < 1 \<longrightarrow> - 0.005 \<le> jitter (rnd i) \<and> jitter (rnd i) < 0.005) \<and>
         (jitter (rnd i) = 0 \<longrightarrow>
            ConvergencePoint.energy (last (runVQE_convergenceData cfg rnd) ! i) =
              reference (molecule cfg) \<and>
            vqe_error cfg (ConvergencePoint.energy (last (runVQE_convergenceData cfg rnd) ! i)) = 0 \<and>
            (i mod 5 = 0 \<longrightarrow>
               VQEResult.energy (published_results (runVQE cfg rnd) ! (i div 5)) =
                 reference (molecule cfg) \<and>
               error (diagnostics (published_results (runVQE cfg rnd) ! (i div 5))) = 0))"
proof -
  have pt: "last (runVQE_convergenceData cfg rnd) ! i =
      \<lparr>iteration = real i,
       ConvergencePoint.energy = reference (molecule cfg) + decay i * jitter (rnd i)\<rparr>"
    using runVQE_point [OF assms] by (simp add: vqe_point_def vqe_energy_spec)
  have base: "baseEnergy cfg = reference (molecule cfg)"
    by (simp add: baseEnergy_def reference_def)
  have snap: "VQEResult.energy (published_results (runVQE cfg rnd) ! (i div 5)) =
        reference (molecule cfg) \<and>
      error (diagnostics (published_results (runVQE cfg rnd) ! (i div 5))) = 0"
    if "i mod 5 = 0" and "jitter (rnd i) = 0"
    using runVQE_snapshot [OF assms that(1)] that(2)
    by (simp add: vqe_snapshot_def snapshot_def vqe_error_def vqe_energy_spec base)
  show ?thesis
    using jitter_range [of "rnd i"] snap
    by (simp add: pt reference_def decay_def vqe_error_def base) (simp add: jitter_def)
qed

theorem energy_formula_witness:
  "(0::nat) \<le> totalIterations \<and> (0::real) \<le> 0.5 \<and> (0.5::real) < 1 \<and>
   jitter ((\<lambda>i. 0.5) (0::nat)) = 0 \<and> (0::nat) mod 5 = 0 \<and>
   last (runVQE_convergenceData initialConfig (\<lambda>i. 0.5)) ! 0 =
     \<lparr>iteration = 0, ConvergencePoint.energy = - 1.13727\<rparr> \<and>
   VQEResult.energy (published_results (runVQE initialConfig (\<lambda>i. 0.5)) ! 0) = - 1.13727 \<and>
   error (diagnostics (published_results (runVQE initialConfig (\<lambda>i. 0.5)) ! 0)) = 0"
  using energy_formula [of 0 initialConfig "\<lambda>i. 0.5"]
  by (simp add: totalIterations_def jitter_def reference_def initialConfig_def decay_def)

text \<open>
  Claim C3. A run makes 51 passes through the loop; pass \<open>i\<close> publishes exactly one
  snapshot when \<open>i mod 5 = 0\<close> and none otherwise, so the run publishes 11 snapshots,
  those of the iterations 0, 5, ..., 50. The run pushes 51 convergence points, the last
  snapshot holds all of them, and its \<open>evaluations\<close> field is 51.
\<close>

theorem snapshot_schedule:
  "length (runVQE_passes cfg rnd) = 51 \<and>
   map (\<lambda>p. length (published_results (snd p))) (runVQE_passes cfg rnd) =
     map (\<lambda>i. if i mod 5 = 0 then 1 else 0) [0..<51] \<and>
   length (published_results (runVQE cfg rnd)) = 11 \<and>
   map (\<lambda>res. evaluations (diagnostics res)) (published_results (runVQE cfg rnd)) =
     map (\<lambda>k. real (5 * k) + 1) [0..<11] \<and>
   length (last (runVQE_convergenceData cfg rnd)) = 51 \<and>
   convergence (last (published_results (runVQE cfg rnd))) =
     last (runVQE_convergenceData cfg rnd) \<and>
   evaluations (diagnostics (last (published_results (runVQE cfg rnd)))) = 51"
proof -
  have "length (runVQE_passes cfg rnd) = 51"
    by (simp add: length_runVQE_passes totalIterations_def)
  moreover have "map (\<lambda>p. length (published_results (snd p))) (runVQE_passes cfg rnd) =
      map (\<lambda>i. if i mod 5 = 0 then 1 else 0) [0..<51]"
    using pass_publications [of cfg rnd] by (simp only: totalIterations_def) simp
  moreover have "length (published_results (runVQE cfg rnd)) = 11"
    by (simp only: published_results_runVQE_list) simp
  moreover have "map (\<lambda>res. evaluations (diagnostics res)) (published_results (runVQE cfg rnd)) =
      map (\<lambda>k. real (5 * k) + 1) [0..<11]"
    by (simp only: published_results_runVQE_list map_map comp_def)
       (simp add: vqe_snapshot_def snapshot_def del: upt_Suc)
  moreover have "length (last (runVQE_convergenceData cfg rnd)) = 51"
    by (simp only: last_runVQE_convergenceData) (simp add: totalIterations_def)
  moreover have "convergence (last (published_results (runVQE cfg rnd))) =
      last (runVQE_convergenceData cfg rnd)"
    by (simp only: last_published_result last_runVQE_convergenceData)
       (simp add: vqe_snapshot_def snapshot_def)
  moreover have "evaluations (diagnostics (last (published_results (runVQE cfg rnd)))) = 51"
    by (simp only: last_published_result)
       (simp add: vqe_snapshot_def snapshot_def totalIterations_def)
  ultimately show ?thesis by (intro conjI)
qed

text \<open>
  Claim C4. The snapshot published in iteration \<open>i\<close> (\<open>i mod 5 = 0\<close>; it is snapshot number
  \<open>i div 5\<close> of the run) has \<open>evaluations = i + 1\<close>, \<open>totalShots = 0\<close> for the
  \<open>statevector\<close> backend and \<open>shots * (i + 1)\<close> otherwise, \<open>qubits\<close> and \<open>pauliTerms\<close>
  looked up from the molecule, \<open>circuitDepth\<close> from the ansatz, and an \<open>error\<close> that
  is \<open>abs (energy - reference) * 1000\<close> for the energy of this very snapshot, which is
  the energy of the point of iteration \<open>i\<close>.
\<close>

theorem snapshot_diagnostics:
  assumes "i \<le> totalIterations" and "i mod 5 = 0"
  shows "evaluations (diagnostics (published_results (runVQE cfg rnd) ! (i div 5))) = real i + 1 \<and>
         totalShots (diagnostics (published_results (runVQE cfg rnd) ! (i div 5))) =
           (if backend cfg = ''statevector'' then 0 else shots cfg * (real i + 1)) \<and>
         qubits (diagnostics (published_results (runVQE cfg rnd) ! (i div 5))) =
           (if molecule cfg = H2 then 2 else 8) \<and>
         pauliTerms (diagnostics (published_results (runVQE cfg rnd) ! (i div 5))) =
           (if molecule cfg = H2 then 5 else 24) \<and>
         circuitDepth (diagnostics (published_results (runVQE cfg rnd) ! (i div 5))) =
           (if ansatz cfg = ''UCCSD'' then 12 else 6) \<and>
         error (diagnostics (published_results (runVQE cfg rnd) ! (i div 5))) =
           \<bar>VQEResult.energy (published_results (runVQE cfg rnd) ! (i div 5))
              - (if molecule cfg = H2 then - 1.13727 else - 7.8773)\<bar> * 1000 \<and>
         VQEResult.energy (published_results (runVQE cfg rnd) ! (i div 5)) =
           ConvergencePoint.energy (last (runVQE_convergenceData cfg rnd) ! i) \<and>
         convergence (published_results (runVQE cfg rnd) ! (i div 5)) =
           take (i + 1) (last (runVQE_convergenceData cfg rnd))"
proof -
  have "take (i + 1) (map (vqe_point cfg rnd) [0..<Suc totalIterations]) =
      map (vqe_point cfg rnd) [0..<Suc i]"
    using assms(1) by (simp add: take_map min_def del: upt_Suc)
  then show ?thesis
    using runVQE_snapshot [OF assms, of cfg rnd] runVQE_point [OF assms(1), of cfg rnd]
    by (simp only: last_runVQE_convergenceData)
       (simp add: vqe_snapshot_def snapshot_def vqe_error_def baseEnergy_def vqe_point_def
          del: upt_Suc)
qed

theorem snapshot_diagnostics_witness:
  "(5::nat) \<le> totalIterations \<and> (5::nat) mod 5 = 0 \<and>
   evaluations (diagnostics (published_results (runVQE (initialConfig\<lparr>backend := ''qasm''\<rparr>) (\<lambda>i. 0)) ! 1)) = 6 \<and>
   totalShots (diagnostics (published_results (runVQE (initialConfig\<lparr>backend := ''qasm''\<rparr>) (\<lambda>i. 0)) ! 1)) = 24000 \<and>
   qubits (diagnostics (published_results (runVQE (initialConfig\<lparr>backend := ''qasm''\<rparr>) (\<lambda>i. 0)) ! 1)) = 2 \<and>
   pauliTerms (diagnostics (published_results (runVQE (initialConfig\<lparr>backend := ''qasm''\<rparr>) (\<lambda>i. 0)) ! 1)) = 5 \<and>
   circuitDepth (diagnostics (published_results (runVQE (initialConfig\<lparr>backend := ''qasm''\<rparr>) (\<lambda>i. 0)) ! 1)) = 12"
  using snapshot_diagnostics [of 5 "initialConfig\<lparr>backend := ''qasm''\<rparr>" "\<lambda>i. 0"]
  by (simp add: totalIterations_def initialConfig_def)

text \<open>
  Claim C5. The dissociation generator performs \<open>setIsRunning(true)\<close>, fifteen progress
  updates, one \<open>setDissociationData\<close> with the whole curve, and \<open>setIsRunning(false)\<close>:
  the curve is published once, after the last pass, and nothing of it before. The
  curve has 15 points at \<open>r = 0.40 + 0.15 * k\<close> for \<open>k = 0..14\<close>, from 0.40 to 2.50,
  each with the energy \<open>-1.13727 + D * (1 - exp (-a * (r - re)))\<^sup>2 - D\<close> for \<open>D = 0.4556\<close>,
  \<open>a = 1.44\<close>, \<open>re = 0.74\<close>; the generator reads no configuration. At \<open>r = re\<close> the
  formula gives -1.59287.
\<close>

theorem dissociation_curve:
  "generateDissociationCurve =
     SetIsRunning True # map (\<lambda>j. SetProgress ((real j / 15) * 100)) [0..<15] @
     [SetDissociationData spec_curve, SetIsRunning False] \<and>
   published_curves generateDissociationCurve = [spec_curve] \<and>
   published_curves (butlast (butlast generateDissociationCurve)) = [] \<and>
   length spec_curve = 15 \<and>
   map r spec_curve = map (\<lambda>k. 0.40 + 0.15 * real k) [0..<15] \<and>
   r (hd spec_curve) = 0.40 \<and> r (last spec_curve) = 2.50 \<and>
   map DissociationPoint.energy spec_curve = map (\<lambda>p. morse_energy (r p)) spec_curve \<and>
   morse_energy x = - 1.13727 + 0.4556 * (1 - exp (- 1.44 * (x - 0.74)))\<^sup>2 - 0.4556 \<and>
   morse_energy 0.74 = - 1.59287"
proof -
  let ?progress = "map (\<lambda>j. SetProgress ((real j / 15) * 100)) [0..<15]"
  have once: "published_curves generateDissociationCurve = [spec_curve]"
    by (simp only: generateDissociationCurve_eq)
       (simp add: published_curves_append published_curves_progress del: upt_Suc)
  have "butlast (butlast generateDissociationCurve) = SetIsRunning True # ?progress"
    by (simp only: generateDissociationCurve_eq) (simp add: butlast_append del: upt_Suc)
  then have before: "published_curves (butlast (butlast generateDissociationCurve)) = []"
    by (simp add: published_curves_progress del: upt_Suc)
  have len: "length spec_curve = 15"
    by (simp add: spec_curve_def)
  have rs: "map r spec_curve = map (\<lambda>k. 0.40 + 0.15 * real k) [0..<15]"
    by (simp add: spec_curve_def comp_def del: upt_Suc)
  have first: "r (hd spec_curve) = 0.40"
    by (simp add: spec_curve_def hd_map del: upt_Suc)
  have final: "r (last spec_curve) = 2.50"
    by (simp add: spec_curve_def last_map del: upt_Suc)
  have es: "map DissociationPoint.energy spec_curve = map (\<lambda>p. morse_energy (r p)) spec_curve"
    by (simp add: spec_curve_def comp_def morse_energy_def del: upt_Suc)
  have formula:
    "morse_energy x = - 1.13727 + 0.4556 * (1 - exp (- 1.44 * (x - 0.74)))\<^sup>2 - 0.4556"
    by (simp add: morse_energy_def)
  have minimum: "morse_energy 0.74 = - 1.59287"
    by (simp add: morse_energy_def)
  show ?thesis
    using generateDissociationCurve_eq once before len rs first final es formula minimum
    by (intro conjI)
qed

text \<open>
  Claim C6. With no stored result \<open>exportResults\<close> has no effect at all: nothing is
  serialised and no download is offered. With a stored result it serialises exactly the
  record of the configuration, the result and the dissociation data, once, and offers
  the download under the name \<open>vqe_results_H2_<bondLength>A.json\<close> for H2 and
  \<open>vqe_results_LiH_<bondLength>A.json\<close> for LiH, with the bond length as the template
  literal prints it.
\<close>

theorem export_named_per_molecule:
  "(AppState.results s = None \<longrightarrow> exportResults show_number s = []) \<and>
   (AppState.results s = Some res \<and> molecule (config s) = H2 \<longrightarrow>
      exportResults show_number s =
        [Serialize \<lparr>configuration = config s, results = res,
                    dissociation = dissociationData s\<rparr>,
         OfferDownload (''vqe_results_H2_'' @ show_number (bondLength (config s)) @ ''A.json'')]) \<and>
   (AppState.results s = Some res \<and> molecule (config s) = LiH \<longrightarrow>
      exportResults show_number s =
        [Serialize \<lparr>configuration = config s, results = res,
                    dissociation = dissociationData s\<rparr>,
         OfferDownload (''vqe_results_LiH_'' @ show_number (bondLength (config s)) @ ''A.json'')])"
proof (intro conjI impI)
  assume "AppState.results s = None"
  then show "exportResults show_number s = []"
    by (simp add: exportResults_def)
next
  assume "AppState.results s = Some res \<and> molecule (config s) = H2"
  then show "exportResults show_number s =
      [Serialize \<lparr>configuration = config s, results = res, dissociation = dissociationData s\<rparr>,
       OfferDownload (''vqe_results_H2_'' @ show_number (bondLength (config s)) @ ''A.json'')]"
    by (simp add: exportResults_def export_filename_def)
next
  assume "AppState.results s = Some res \<and> molecule (config s) = LiH"
  then show "exportResults show_number s =
      [Serialize \<lparr>configuration = config s, results = res, dissociation = dissociationData s\<rparr>,
       OfferDownload (''vqe_results_LiH_'' @ show_number (bondLength (config s)) @ ''A.json'')]"
    by (simp add: exportResults_def export_filename_def)
qed

theorem export_named_per_molecule_witness:
  "AppState.results initialState = None \<and>
   exportResults (\<lambda>x. if x = 0.74 then ''0.74'' else ''1.6'') initialState = [] \<and>
   AppState.results (initialState\<lparr>AppState.results := Some (vqe_snapshot initialConfig (\<lambda>i. 0.5) 50)\<rparr>) =
     Some (vqe_snapshot initialConfig (\<lambda>i. 0.5) 50) \<and>
   molecule (config (initialState\<lparr>AppState.results := Some (vqe_snapshot initialConfig (\<lambda>i. 0.5) 50)\<rparr>)) = H2 \<and>
   exportResults (\<lambda>x. if x = 0.74 then ''0.74'' else ''1.6'')
       (initialState\<lparr>AppState.results := Some (vqe_snapshot initialConfig (\<lambda>i. 0.5) 50)\<rparr>) =
     [Serialize \<lparr>configuration = initialConfig,
                 results = vqe_snapshot initialConfig (\<lambda>i. 0.5) 50,
                 dissociation = []\<rparr>,
      OfferDownload ''vqe_results_H2_0.74A.json''] \<and>
   molecule (config lithium_hydride_state) = LiH \<and>
   exportResults (\<lambda>x. if x = 0.74 then ''0.74'' else ''1.6'') lithium_hydride_state =
     [Serialize \<lparr>configuration = initialConfig\<lparr>molecule := LiH, bondLength := 1.6\<rparr>,
                 results = vqe_snapshot (initialConfig\<lparr>molecule := LiH, bondLength := 1.6\<rparr>) (\<lambda>i. 0.5) 50,
                 dissociation = spec_curve\<rparr>,
      OfferDownload ''vqe_results_LiH_1.6A.json'']"
  using export_named_per_molecule [where s = initialState
      and show_number = "\<lambda>x. if x = 0.74 then ''0.74'' else ''1.6''"]
    export_named_per_molecule
      [where s = "initialState\<lparr>AppState.results := Some (vqe_snapshot initialConfig (\<lambda>i. 0.5) 50)\<rparr>"
         and res = "vqe_snapshot initialConfig (\<lambda>i. 0.5) 50"
         and show_number = "\<lambda>x. if x = 0.74 then ''0.74'' else ''1.6''"]
    export_named_per_molecule
      [where s = lithium_hydride_state
         and res = "vqe_snapshot (initialConfig\<lparr>molecule := LiH, bondLength := 1.6\<rparr>) (\<lambda>i. 0.5) 50"
         and show_number = "\<lambda>x. if x = 0.74 then ''0.74'' else ''1.6''"]
  by (simp add: initialState_def initialConfig_def lithium_hydride_state_def)

text \<open>
  Claim C7. Both views show chemical accuracy as achieved exactly when the error in
  milli-Hartree is strictly below 1.6: achieved at 1.5999, not achieved at 1.6 and
  above.
\<close>

theorem chemical_accuracy_strict:
  "(app_chemical_accuracy err = (CheckMark, ''Achieved'')) = (err < 1.6) \<and>
   (app_chemical_accuracy err = (CrossMark, ''Not reached'')) = (1.6 \<le> err) \<and>
   (table_chemical_accuracy err = CheckMark) = (err < 1.6) \<and>
   (table_chemical_accuracy err = CircleMark) = (1.6 \<le> err) \<and>
   app_chemical_accuracy 1.5999 = (CheckMark, ''Achieved'') \<and>
   table_chemical_accuracy 1.5999 = CheckMark \<and>
   app_chemical_accuracy 1.6 = (CrossMark, ''Not reached'') \<and>
   table_chemical_accuracy 1.6 = CircleMark"
  by (simp add: app_chemical_accuracy_def table_chemical_accuracy_def not_less)

text \<open>
  Claim C8, as stated, fails in the arithmetic of the code: the double -7.8798,
  multiplied by 27.2114 and divided by 27.2114, comes back as the next double,
  -7.879800000000001.
\<close>

theorem round_trip_not_exact:
  "fl (- 7.8798) = - (8871866085938509 / 2 ^ 50) \<and>
   energy_eV (fl (- 7.8798)) = - (7544246775340849 / 2 ^ 45) \<and>
   fdiv (energy_eV (fl (- 7.8798))) (fl 27.2114) = - (8871866085938510 / 2 ^ 50) \<and>
   fdiv (energy_eV (fl (- 7.8798))) (fl 27.2114) \<noteq> fl (- 7.8798)"
proof -
  have "fdiv (energy_eV (fl (- 7.8798))) (fl 27.2114) \<noteq> fl (- 7.8798)"
    by (subst round_trip_m7_8798, subst fl_m7_8798) simp
  then show ?thesis
    using fl_m7_8798 eV_m7_8798 round_trip_m7_8798 by (intro conjI)
qed

text \<open>
  Claim C8, amended. The conversion is the double product of the energy and 27.2114,
  within relative error \<open>2^-51\<close> of the exact product. Dividing the result by 27.2114 (a
  division that the code never performs) gives the original energy back within relative
  error \<open>2^-51\<close>, not exactly, for every energy of magnitude between \<open>2^-1000\<close> and
  \<open>2^1000\<close>.
\<close>

theorem round_trip_within_rounding:
  assumes "2 powr (- 1000) \<le> \<bar>e\<bar>" and "\<bar>e\<bar> \<le> 2 powr 1000"
  shows "energy_eV e = fl (e * fl 27.2114) \<and>
         \<bar>energy_eV e - e * 27.2114\<bar> \<le> 2 powr (- 51) * \<bar>e * 27.2114\<bar> \<and>
         \<bar>fdiv (energy_eV e) (fl 27.2114) - e\<bar> \<le> 2 powr (- 51) * \<bar>e\<bar>"
proof -
  define c :: real where "c = 7659328181264345 / 2 ^ 48"
  define eps :: real where "eps = 1 / 2 ^ 53"
  define p where "p = fl (e * c)"
  define q where "q = fl (p / c)"
  have c: "fl 27.2114 = c" by (simp only: fl_27_2114 c_def)
  have c_bounds: "27 < c" "c < 28" "\<bar>c - 27.2114\<bar> \<le> eps * 27.2114"
    by (simp_all add: c_def eps_def abs_if)
  have eps: "0 < eps" "eps \<le> 1 / 2" "2 powr (- 53) = eps" "2 powr (- 51) = 4 * eps"
    by (simp_all add: eps_def eps_facts)
  have tiny: "(2::real) powr (- 1022) \<le> 2 powr (- 1001)" "(2::real) powr (- 1001) = 2 powr (- 1000) / 2"
    by (simp_all add: powr_minus field_simps)
  have epos: "0 < \<bar>e\<bar>" using assms(1) powr_gt_zero [of 2 "- 1000"] by linarith
  have ec: "\<bar>e * c\<bar> = \<bar>e\<bar> * c" using c_bounds by (simp add: abs_mult)
  have "2 powr (- 1022) \<le> \<bar>e * c\<bar>"
  proof -
    have "\<bar>e\<bar> * 1 \<le> \<bar>e\<bar> * c" using c_bounds by (intro mult_left_mono) simp_all
    then show ?thesis using assms(1) tiny by (simp add: ec)
  qed
  then have p_err: "\<bar>p - e * c\<bar> \<le> eps * (\<bar>e\<bar> * c)"
    using fl_error_normal [of "e * c"] by (simp add: p_def eps ec)
  have cpos: "0 < c" using c_bounds(1) by simp
  have "p / c - e = (p - e * c) / c" using cpos by (simp add: field_simps)
  then have "\<bar>p / c - e\<bar> = \<bar>(p - e * c) / c\<bar>" by simp
  also have "\<dots> = \<bar>p - e * c\<bar> / c" using cpos by (simp only: abs_divide abs_of_pos)
  also have "\<dots> \<le> (eps * (\<bar>e\<bar> * c)) / c"
    using p_err cpos by (intro divide_right_mono) simp_all
  also have "\<dots> = eps * \<bar>e\<bar>" using cpos by simp
  finally have pc_err: "\<bar>p / c - e\<bar> \<le> eps * \<bar>e\<bar>" .
  have half: "eps * \<bar>e\<bar> \<le> \<bar>e\<bar> / 2"
    using eps(2) epos by (simp add: field_simps)
  have pc_low: "\<bar>e\<bar> / 2 \<le> \<bar>p / c\<bar>" and pc_up: "\<bar>p / c\<bar> \<le> 2 * \<bar>e\<bar>"
    using pc_err half by linarith+
  have "2 powr (- 1022) \<le> \<bar>p / c\<bar>"
    using pc_low assms(1) tiny by linarith
  then have "\<bar>q - p / c\<bar> \<le> eps * \<bar>p / c\<bar>"
    using fl_error_normal [of "p / c"] by (simp add: q_def eps)
  also have "\<dots> \<le> eps * (2 * \<bar>e\<bar>)"
    using pc_up eps(1) by (intro mult_left_mono) simp_all
  finally have q_err: "\<bar>q - p / c\<bar> \<le> 2 * eps * \<bar>e\<bar>" by simp
  have trip: "\<bar>q - e\<bar> \<le> 4 * eps * \<bar>e\<bar>"
  proof -
    have "\<bar>q - e\<bar> \<le> 2 * eps * \<bar>e\<bar> + eps * \<bar>e\<bar>"
      using q_err pc_err by (rule abs_diff_triangle)
    also have "\<dots> \<le> 4 * eps * \<bar>e\<bar>" using eps(1) epos by (simp add: field_simps)
    finally show ?thesis .
  qed
  have conv: "\<bar>p - e * 27.2114\<bar> \<le> 4 * eps * \<bar>e * 27.2114\<bar>"
  proof -
    define B where "B = eps * (\<bar>e\<bar> * 27.2114)"
    have Bpos: "0 \<le> B" using eps(1) by (simp add: B_def)
    have "e * c - e * 27.2114 = e * (c - 27.2114)" by (simp add: algebra_simps)
    then have "\<bar>e * c - e * 27.2114\<bar> = \<bar>e\<bar> * \<bar>c - 27.2114\<bar>"
      by (simp only: abs_mult)
    also have "\<dots> \<le> \<bar>e\<bar> * (eps * 27.2114)"
      using c_bounds(3) by (rule mult_left_mono) simp
    also have "\<dots> = B" by (simp add: B_def mult_ac)
    finally have lit: "\<bar>e * c - e * 27.2114\<bar> \<le> B" .
    have "c \<le> 2 * 27.2114" using c_bounds by simp
    then have "\<bar>e\<bar> * c \<le> \<bar>e\<bar> * (2 * 27.2114)" by (rule mult_left_mono) simp
    then have "eps * (\<bar>e\<bar> * c) \<le> eps * (\<bar>e\<bar> * (2 * 27.2114))"
      using eps(1) by (simp only: mult_le_cancel_left_pos)
    also have "\<dots> = 2 * B" by (simp add: B_def mult_ac)
    finally have "\<bar>p - e * c\<bar> \<le> 2 * B" using p_err by (rule order_trans [rotated])
    then have "\<bar>p - e * 27.2114\<bar> \<le> 2 * B + B" using lit by (rule abs_diff_triangle)
    also have "\<dots> \<le> 4 * B" using Bpos by simp
    also have "\<dots> = 4 * eps * \<bar>e * 27.2114\<bar>" by (simp add: B_def abs_mult mult_ac)
    finally show ?thesis .
  qed
  have "energy_eV e = p" by (simp only: energy_eV_def fmul_def c p_def)
  moreover have "fdiv (energy_eV e) (fl 27.2114) = q"
    by (simp only: fdiv_def energy_eV_def fmul_def c p_def q_def)
  moreover have "energy_eV e = fl (e * fl 27.2114)" by (simp only: energy_eV_def fmul_def)
  ultimately show ?thesis using trip conv by (simp only: eps)
qed

theorem round_trip_within_rounding_witness:
  "2 powr (- 1000) \<le> \<bar>fl (- 7.8798)\<bar> \<and> \<bar>fl (- 7.8798)\<bar> \<le> 2 powr 1000 \<and>
   \<bar>fdiv (energy_eV (fl (- 7.8798))) (fl 27.2114) - fl (- 7.8798)\<bar>
     \<le> 2 powr (- 51) * \<bar>fl (- 7.8798)\<bar>"
proof -
  have lo: "2 powr (- 1000) \<le> \<bar>fl (- 7.8798)\<bar>"
    by (subst fl_m7_8798) (simp add: powr_minus field_simps)
  have hi: "\<bar>fl (- 7.8798)\<bar> \<le> 2 powr 1000"
    by (subst fl_m7_8798) simp
  show ?thesis
    using round_trip_within_rounding [OF lo hi] lo hi by blast
qed




text \<open>
  Claim C10. While \<open>runVQE\<close> runs from any state, every state on the way has the
  dissociation data (and the configuration) of the start: the run calls only
  \<open>setIsRunning\<close>, \<open>setProgress\<close> and \<open>setResults\<close>. While
  \<open>generateDissociationCurve\<close> runs, every state on the way has the stored result (and
  the configuration) of the start: it calls only \<open>setIsRunning\<close>, \<open>setProgress\<close> and
  \<open>setDissociationData\<close>.
\<close>

theorem generators_frame:
  "(\<forall>s \<in> set (states s0 (runVQE cfg rnd)).
      dissociationData s = dissociationData s0 \<and> config s = config s0) \<and>
   (\<forall>s \<in> set (states s0 generateDissociationCurve).
      AppState.results s = AppState.results s0 \<and> config s = config s0) \<and>
   published_curves (runVQE cfg rnd) = [] \<and>
   published_results generateDissociationCurve = []"
  using states_keep_curve [OF published_curves_runVQE]
    states_keep_results [OF published_results_generateDissociationCurve]
    published_curves_runVQE published_results_generateDissociationCurve
  by blast

theorem generators_frame_witness:
  "last (states initialState (runVQE initialConfig (\<lambda>i. 0))) \<in>
     set (states initialState (runVQE initialConfig (\<lambda>i. 0))) \<and>
   dissociationData (last (states initialState (runVQE initialConfig (\<lambda>i. 0)))) = [] \<and>
   config (last (states initialState (runVQE initialConfig (\<lambda>i. 0)))) = initialConfig \<and>
   last (states initialState generateDissociationCurve) \<in>
     set (states initialState generateDissociationCurve) \<and>
   AppState.results (last (states initialState generateDissociationCurve)) = None \<and>
   config (last (states initialState generateDissociationCurve)) = initialConfig"
proof -
  have m1: "last (states initialState (runVQE initialConfig (\<lambda>i. 0))) \<in>
      set (states initialState (runVQE initialConfig (\<lambda>i. 0)))"
    by (rule last_in_set) (rule states_nonempty)
  have m2: "last (states initialState generateDissociationCurve) \<in>
      set (states initialState generateDissociationCurve)"
    by (rule last_in_set) (rule states_nonempty)
  have init: "dissociationData initialState = [] \<and> AppState.results initialState = None \<and>
      config initialState = initialConfig"
    by (simp add: initialState_def)
  show ?thesis
    using generators_frame [of initialState initialConfig "\<lambda>i. 0"] m1 m2 init by metis
qed

end
